theory Spec2Isabelle
  imports Complex_Main
begin

section \<open>Numbers, arrays and exceptions\<close>

text \<open>
  The simulator computes with NumPy's 64-bit floats. They are modelled as real numbers
  extended with the three non-finite values. The operations \<open>np_add\<close>, \<open>np_mul\<close>
  and \<open>np_div\<close> are the exact ones: they do not round, and the sign of zero is not
  modelled (a zero divisor counts as \<open>+0\<close>). What they do model is that NumPy
  arithmetic never raises: a division by zero yields \<open>NaN\<close> or an infinity, which
  then propagates. Rounding is modelled apart, by \<open>rnd64\<close> below, in the two places
  where it decides a property: the number of samples of the time grid, and the exact
  equality of two products.
\<close>

datatype npfloat = Fin real | PInf | NInf | NaN

fun is_finite :: "npfloat \<Rightarrow> bool" where
  "is_finite (Fin a) = True"
| "is_finite x = False"

fun np_neg :: "npfloat \<Rightarrow> npfloat" where
  "np_neg (Fin a) = Fin (- a)"
| "np_neg PInf = NInf"
| "np_neg NInf = PInf"
| "np_neg NaN = NaN"

fun np_add :: "npfloat \<Rightarrow> npfloat \<Rightarrow> npfloat" where
  "np_add (Fin a) (Fin b) = Fin (a + b)"
| "np_add NaN y = NaN"
| "np_add x NaN = NaN"
| "np_add PInf NInf = NaN"
| "np_add NInf PInf = NaN"
| "np_add PInf y = PInf"
| "np_add NInf y = NInf"
| "np_add x PInf = PInf"
| "np_add x NInf = NInf"

definition np_sub :: "npfloat \<Rightarrow> npfloat \<Rightarrow> npfloat" where
  "np_sub x y = np_add x (np_neg y)"

text \<open>An infinity times a finite number: the sign rule, and \<open>inf * 0 = nan\<close>.\<close>

definition inf_times :: "bool \<Rightarrow> real \<Rightarrow> npfloat" where
  "inf_times positive a =
     (if a = 0 then NaN else if (0 < a) = positive then PInf else NInf)"

fun np_mul :: "npfloat \<Rightarrow> npfloat \<Rightarrow> npfloat" where
  "np_mul (Fin a) (Fin b) = Fin (a * b)"
| "np_mul NaN y = NaN"
| "np_mul x NaN = NaN"
| "np_mul PInf (Fin b) = inf_times True b"
| "np_mul NInf (Fin b) = inf_times False b"
| "np_mul (Fin a) PInf = inf_times True a"
| "np_mul (Fin a) NInf = inf_times False a"
| "np_mul PInf PInf = PInf"
| "np_mul NInf NInf = PInf"
| "np_mul PInf NInf = NInf"
| "np_mul NInf PInf = NInf"

fun np_div :: "npfloat \<Rightarrow> npfloat \<Rightarrow> npfloat" where
  "np_div (Fin a) (Fin b) =
     (if b \<noteq> 0 then Fin (a / b)
      else if a = 0 then NaN else if 0 < a then PInf else NInf)"
| "np_div NaN y = NaN"
| "np_div x NaN = NaN"
| "np_div (Fin a) PInf = Fin 0"
| "np_div (Fin a) NInf = Fin 0"
| "np_div PInf (Fin b) = (if 0 \<le> b then PInf else NInf)"
| "np_div NInf (Fin b) = (if 0 \<le> b then NInf else PInf)"
| "np_div PInf PInf = NaN"
| "np_div PInf NInf = NaN"
| "np_div NInf PInf = NaN"
| "np_div NInf NInf = NaN"

text \<open>
  Rounding to float64: the nearest number with 53 significant bits, a tie going to the
  even significand. The exponent is not bounded, so overflow and underflow are left out.
  \<open>rnd_np\<close> rounds a finite result and leaves the other values alone.
\<close>

definition round_even :: "real \<Rightarrow> int" where
  "round_even y =
     (let n = \<lfloor>y\<rfloor>; r = y - of_int n
      in if r < 1/2 then n else if 1/2 < r then n + 1 else if even n then n else n + 1)"

definition rnd64 :: "real \<Rightarrow> real" where
  "rnd64 x =
     (if x = 0 then 0
      else (let u = 2 powi (\<lfloor>log 2 \<bar>x\<bar>\<rfloor> - 52)
            in of_int (round_even (x / u)) * u))"

fun rnd_np :: "npfloat \<Rightarrow> npfloat" where
  "rnd_np (Fin a) = Fin (rnd64 a)"
| "rnd_np x = x"

text \<open>
  \<open>up_to k x y\<close>: \<open>x\<close> is \<open>y\<close> up to \<open>k\<close> successive roundings, each of
  relative size at most \<open>2\<^sup>-\<^sup>5\<^sup>3\<close>.
\<close>

definition up_to :: "nat \<Rightarrow> real \<Rightarrow> real \<Rightarrow> bool" where
  "up_to k x y \<longleftrightarrow> \<bar>x - y\<bar> \<le> ((1 + 1 / 2^53)^k - 1) * \<bar>y\<bar>"

text \<open>
  Python exceptions are values. \<open>str\<close> is the text \<open>f"{e}"\<close> prints.
\<close>

datatype exn = ValueError string | IndexError string | OtherError string

fun str :: "exn \<Rightarrow> string" where
  "str (ValueError s) = s"
| "str (IndexError s) = s"
| "str (OtherError s) = s"

text \<open>
  \<open>np.arange(start, stop, step)\<close> for a positive step. NumPy takes the number of
  samples from float64 arithmetic: the arguments are float64 values (here the nearest to
  the real arguments), their difference and the quotient by the step are rounded, and
  the ceiling of that quotient is the length (none when it is not positive). The samples
  themselves are \<open>start + i * step\<close>, not rounded.
\<close>

definition arange_len :: "real \<Rightarrow> real \<Rightarrow> real \<Rightarrow> nat" where
  "arange_len start stop step =
     nat \<lceil>rnd64 (rnd64 (rnd64 stop - rnd64 start) / rnd64 step)\<rceil>"

definition arange :: "real \<Rightarrow> real \<Rightarrow> real \<Rightarrow> real list" where
  "arange start stop step =
     map (\<lambda>i. start + real i * step) [0 ..< arange_len start stop step]"

text \<open>
  Python's built-in \<open>max\<close> over a sequence: the first item is the candidate, a later
  item replaces it when it is greater; an empty sequence raises \<open>ValueError\<close>.
\<close>

definition py_max :: "real list \<Rightarrow> exn + real" where
  "py_max xs =
     (case xs of
        [] \<Rightarrow> Inl (ValueError ''max() arg is an empty sequence'')
      | x # rest \<Rightarrow> Inr (fold (\<lambda>item best. if best < item then item else best) rest x))"

section \<open>The process state\<close>

text \<open>
  Two pieces of state outlive a call: NumPy's global random generator, which
  \<open>generar_sismo\<close> reseeds and advances, and the page, to which \<open>resolver_sdof\<close>
  reports an error with \<open>st.error\<close>. The generator itself belongs to NumPy, so it is a
  parameter: \<open>seed_state\<close> is the state \<open>np.random.seed\<close> installs and
  \<open>next_normal\<close> draws one standard-normal sample. Samples are finite numbers.
  The \<open>st.cache_data\<close> decorator of both functions, which replays a stored result for
  arguments seen before, is left out: the functions below are the decorated bodies.
\<close>

record 'g generator =
  seed_state :: "int \<Rightarrow> 'g"
  next_normal :: "'g \<Rightarrow> real \<times> 'g"

record 'g world =
  np_random :: 'g
  st_errors :: "string list"

text \<open>\<open>np.random.randn(n)\<close>: \<open>n\<close> successive samples.\<close>

fun randn :: "'g generator \<Rightarrow> 'g \<Rightarrow> nat \<Rightarrow> real list \<times> 'g" where
  "randn R g 0 = ([], g)"
| "randn R g (Suc n) =
     (let (z, g') = next_normal R g; (zs, g'') = randn R g' n in (z # zs, g''))"

section \<open>Ground-motion synthesis\<close>

definition ricker :: "real \<Rightarrow> real \<Rightarrow> real \<Rightarrow> real" where
  "ricker t t0 f0 =
     (let tau = t - t0;
          a = (pi * f0 * tau)\<^sup>2
      in (1 - 2 * a) * exp (- a))"

text \<open>
  The signal of \<open>generar_sismo\<close> before its last statement: the five wavelets, the
  envelope and the noise drawn after reseeding. The incoming generator state is
  overwritten by \<open>np.random.seed(seed)\<close>, so it is not an argument; the state left
  behind is returned with the signal.
\<close>

definition raw_signal :: "'g generator \<Rightarrow> real \<Rightarrow> int \<Rightarrow> real list \<times> real list \<times> 'g" where
  "raw_signal R T seed =
     (let dt = 0.01;
          t = arange 0 T dt;
          acc = map (\<lambda>ti. 0.8 * ricker ti (T / 3 - 5) 1.0
                         + 1.2 * ricker ti (T / 3) 2.5
                         + 0.6 * ricker ti (T / 3 + 5) 4.0
                         + 0.3 * ricker ti (T / 2) 1.2
                         + 0.4 * ricker ti (2 * T / 3) 3.0) t;
          env = map (\<lambda>ti. exp (- (((ti - T / 2) / (T / 4))\<^sup>2))) t;
          acc = map2 (*) acc env;
          g = seed_state R seed;
          (noise, g') = randn R g (length t);
          acc = map2 (\<lambda>a z. a + 0.05 * z) acc noise
      in (t, acc, g'))"

text \<open>
  The last statement, \<open>acc = acc / max(abs(acc)) * (0.6 * intensidad)\<close>: the peak is
  taken with Python's \<open>max\<close>, the division and the product are NumPy's.
\<close>

definition normalizar :: "real list \<Rightarrow> real \<Rightarrow> exn + npfloat list" where
  "normalizar acc intensidad =
     (case py_max (map abs acc) of
        Inl e \<Rightarrow> Inl e
      | Inr peak \<Rightarrow>
          Inr (map (\<lambda>a. np_mul (np_div (Fin a) (Fin peak)) (Fin (0.6 * intensidad))) acc))"

definition generar_sismo ::
  "'g generator \<Rightarrow> 'g world \<Rightarrow> real \<Rightarrow> real \<Rightarrow> int
     \<Rightarrow> (exn + real list \<times> npfloat list) \<times> 'g world" where
  "generar_sismo R w T intensidad seed =
     (let (t, acc, g') = raw_signal R T seed;
          w' = w\<lparr>np_random := g'\<rparr>
      in case normalizar acc intensidad of
           Inl e \<Rightarrow> (Inl e, w')
         | Inr acc' \<Rightarrow> (Inr (t, acc'), w'))"

text \<open>
  The same last statement with the rounding of each of its float64 operations: the
  division by the peak, the product \<open>0.6 * intensidad\<close> and the product of the two.
  The constant and the argument are float64 values: the nearest to 0.6 and to the real
  argument. \<open>generar_sismo64\<close> is \<open>generar_sismo\<close> with this statement;
  \<open>scale64 l\<close> is NumPy's product of an array by the float64 nearest to \<open>l\<close>.
\<close>

definition normalizar64 :: "real list \<Rightarrow> real \<Rightarrow> exn + npfloat list" where
  "normalizar64 acc intensidad =
     (case py_max (map abs acc) of
        Inl e \<Rightarrow> Inl e
      | Inr peak \<Rightarrow>
          Inr (map (\<lambda>a. rnd_np (np_mul (rnd_np (np_div (Fin a) (Fin peak)))
                                        (rnd_np (np_mul (Fin (rnd64 0.6))
                                                        (Fin (rnd64 intensidad))))))
                   acc))"

definition generar_sismo64 ::
  "'g generator \<Rightarrow> 'g world \<Rightarrow> real \<Rightarrow> real \<Rightarrow> int
     \<Rightarrow> (exn + real list \<times> npfloat list) \<times> 'g world" where
  "generar_sismo64 R w T intensidad seed =
     (let (t, acc, g') = raw_signal R T seed;
          w' = w\<lparr>np_random := g'\<rparr>
      in case normalizar64 acc intensidad of
           Inl e \<Rightarrow> (Inl e, w')
         | Inr acc' \<Rightarrow> (Inr (t, acc'), w'))"

definition scale64 :: "real \<Rightarrow> npfloat list \<Rightarrow> npfloat list" where
  "scale64 l acc = map (\<lambda>x. rnd_np (np_mul (Fin (rnd64 l)) x)) acc"

section \<open>The response of the structure\<close>

text \<open>
  \<open>np.interp(x, xp, fp)\<close> at one point: piecewise linear between the samples, the
  first or last value outside them, a sample's own value at a sample point. It raises
  \<open>ValueError\<close> on an empty \<open>xp\<close> and on arrays of different lengths. The segment is
  found as NumPy's search does for increasing \<open>xp\<close>: the last sample not above \<open>x\<close>.
  When the interpolated value is \<open>NaN\<close>, NumPy tries again from the right end of the
  segment, and falls back to the sample value when both ends carry the same value.
\<close>

fun np_eq :: "npfloat \<Rightarrow> npfloat \<Rightarrow> bool" where
  "np_eq NaN y = False"
| "np_eq x NaN = False"
| "np_eq x y = (x = y)"

definition interp :: "real \<Rightarrow> real list \<Rightarrow> npfloat list \<Rightarrow> exn + npfloat" where
  "interp x xp fp =
     (if xp = [] then Inl (ValueError ''array of sample points is empty'')
      else if length fp \<noteq> length xp
        then Inl (ValueError ''fp and xp are not of the same length.'')
      else if last xp < x then Inr (last fp)
      else if x < hd xp then Inr (hd fp)
      else
        (let j = length (takeWhile (\<lambda>p. p \<le> x) xp) - 1
         in if j = length xp - 1 then Inr (fp ! j)
            else if xp ! j = x then Inr (fp ! j)
            else
              (let slope = np_div (np_sub (fp ! (j + 1)) (fp ! j))
                                  (Fin (xp ! (j + 1) - xp ! j));
                   r = np_add (np_mul slope (Fin (x - xp ! j))) (fp ! j)
               in if r \<noteq> NaN then Inr r
                  else
                    (let r' = np_add (np_mul slope (Fin (x - xp ! (j + 1)))) (fp ! (j + 1))
                     in if r' = NaN \<and> np_eq (fp ! j) (fp ! (j + 1)) then Inr (fp ! j)
                        else Inr r'))))"

text \<open>
  \<open>np.gradient(f, dx)\<close> of a one-dimensional array: central differences inside,
  one-sided differences at both ends, \<open>ValueError\<close> below two samples.
\<close>

definition gradient :: "npfloat list \<Rightarrow> real \<Rightarrow> exn + npfloat list" where
  "gradient f dx =
     (let n = length f
      in if n < 2
         then Inl (ValueError
           ''Shape of array too small to calculate a numerical gradient, at least (edge_order + 1) elements are required.'')
         else Inr (map (\<lambda>i.
                if i = 0 then np_div (np_sub (f ! 1) (f ! 0)) (Fin dx)
                else if i = n - 1 then np_div (np_sub (f ! (n - 1)) (f ! (n - 2))) (Fin dx)
                else np_div (np_sub (f ! (i + 1)) (f ! (i - 1))) (Fin (2 * dx)))
              [0 ..< n]))"

text \<open>
  The right-hand side handed to the integrator, with the variables of the enclosing
  function (\<open>m\<close>, \<open>c\<close>, \<open>k\<close>, \<open>t\<close>, \<open>F_t\<close>) as leading arguments. The integrator
  asks for it at finite times and at states of its own making.
\<close>

type_synonym state = "npfloat \<times> npfloat"

type_synonym rhs = "real \<Rightarrow> state \<Rightarrow> exn + state"

definition modelo_sdof ::
  "real \<Rightarrow> real \<Rightarrow> real \<Rightarrow> real list \<Rightarrow> npfloat list \<Rightarrow> rhs" where
  "modelo_sdof m c k t F_t ti y =
     (let (x, v) = y
      in case interp ti t F_t of
           Inl e \<Rightarrow> Inl e
         | Inr Fi \<Rightarrow>
             (let a = np_div (np_sub (np_sub Fi (np_mul (Fin c) v)) (np_mul (Fin k) x)) (Fin m)
              in Inr (v, a)))"

text \<open>
  SciPy's \<open>solve_ivp\<close> is a parameter of the model: a function of the right-hand side,
  the time span, the initial state, the evaluation times and the step cap (the method is
  always \<open>RK45\<close>). It either raises or returns its result object, of which the model
  keeps the columns of \<open>sol.y\<close>, the success flag and the message. A failed integration
  is a result with \<open>success = False\<close>, not an exception.
\<close>

record ode_result =
  sol_y :: "state list"
  success :: bool
  message :: string

type_synonym solve_ivp = "rhs \<Rightarrow> real \<times> real \<Rightarrow> state \<Rightarrow> real list \<Rightarrow> real \<Rightarrow> exn + ode_result"

record respuesta =
  resp_t :: "real list"
  resp_x :: "npfloat list"
  resp_v :: "npfloat list"
  resp_a :: "npfloat list"
  E_cinetica :: "npfloat list"
  E_potencial :: "npfloat list"
  E_total :: "npfloat list"

text \<open>The text shown by \<open>st.error\<close>; the accented letter is its two UTF-8 bytes.\<close>

definition error_text :: "exn \<Rightarrow> string" where
  "error_text e =
     ''Error al resolver la ecuaci'' @ [CHR 0xC3, CHR 0xB3] @ ''n diferencial: '' @ str e"

text \<open>
  The statements of \<open>resolver_sdof\<close> up to the end of its \<open>try\<close> block. The three
  that precede \<open>try\<close> raise nothing; inside it, any exception of the integrator, of
  the right-hand side called by it, of the indexing \<open>sol.y[0]\<close> or of \<open>np.gradient\<close>
  leaves the block. When SciPy has collected no state at all, its \<open>sol.y\<close> is an empty
  list, and \<open>sol.y[0]\<close> raises \<open>IndexError\<close>.
\<close>

definition intentar_sdof ::
  "solve_ivp \<Rightarrow> real \<Rightarrow> real \<Rightarrow> real \<Rightarrow> real \<Rightarrow> npfloat list \<Rightarrow> exn + respuesta" where
  "intentar_sdof ivp m c k T acc_ground =
     (let dt = 0.01;
          t = arange 0 T dt;
          F_t = map (\<lambda>ag. np_mul (Fin (- m)) ag) acc_ground
      in case ivp (modelo_sdof m c k t F_t) (0, T) (Fin 0, Fin 0) t 0.01 of
           Inl e \<Rightarrow> Inl e
         | Inr sol \<Rightarrow>
             if sol_y sol = [] then Inl (IndexError ''list index out of range'')
             else
             (let x = map fst (sol_y sol);
                  v = map snd (sol_y sol)
              in case gradient v dt of
                   Inl e \<Rightarrow> Inl e
                 | Inr a \<Rightarrow>
                     (let Ec = map (\<lambda>vi. np_mul (Fin (0.5 * m)) (np_mul vi vi)) v;
                          Ep = map (\<lambda>xi. np_mul (Fin (0.5 * k)) (np_mul xi xi)) x;
                          Et = map2 np_add Ec Ep
                      in Inr \<lparr>resp_t = t, resp_x = x, resp_v = v, resp_a = a,
                              E_cinetica = Ec, E_potencial = Ep, E_total = Et\<rparr>)))"

text \<open>
  \<open>resolver_sdof\<close>: the \<open>try\<close> block with its handler, which reports the exception on
  the page and returns \<open>None\<close>. It neither reads nor writes the random generator.
\<close>

definition resolver_sdof ::
  "solve_ivp \<Rightarrow> 'g world \<Rightarrow> real \<Rightarrow> real \<Rightarrow> real \<Rightarrow> real \<Rightarrow> npfloat list
     \<Rightarrow> respuesta option \<times> 'g world" where
  "resolver_sdof ivp w m c k T acc_ground =
     (case intentar_sdof ivp m c k T acc_ground of
        Inr r \<Rightarrow> (Some r, w)
      | Inl e \<Rightarrow> (None, w\<lparr>st_errors := st_errors w @ [error_text e]\<rparr>))"

section \<open>Stand-ins for the library parameters\<close>

text \<open>
  Two integrators and two families of generators on which the theorems below are
  exercised. \<open>euler_ivp\<close> is the explicit Euler method stepping from one evaluation
  time to the next, with SciPy's behaviour around it: it rejects evaluation times
  outside the span or out of order and a step cap that is not positive, it evaluates the
  right-hand side at the initial state first, it lets an exception of the right-hand
  side pass, and when a derivative is not finite it gives up without an exception,
  returning the states collected before (none if that happens at the start).
\<close>

definition finite_state :: "state \<Rightarrow> bool" where
  "finite_state d \<longleftrightarrow> is_finite (fst d) \<and> is_finite (snd d)"

fun euler_path :: "rhs \<Rightarrow> real \<Rightarrow> state \<Rightarrow> real list \<Rightarrow> exn + state list \<times> bool" where
  "euler_path f t y [] = Inr ([], True)"
| "euler_path f t y (t' # ts) =
     (if t' = t then
        (case euler_path f t' y ts of
           Inl e \<Rightarrow> Inl e
         | Inr (ys, ok) \<Rightarrow> Inr (y # ys, ok))
      else
        (case f t y of
           Inl e \<Rightarrow> Inl e
         | Inr d \<Rightarrow>
             if \<not> finite_state d then Inr ([], False)
             else
               (let y' = (np_add (fst y) (np_mul (Fin (t' - t)) (fst d)),
                          np_add (snd y) (np_mul (Fin (t' - t)) (snd d)))
                in case euler_path f t' y' ts of
                     Inl e \<Rightarrow> Inl e
                   | Inr (ys, ok) \<Rightarrow> Inr (y' # ys, ok))))"

definition euler_ivp :: solve_ivp where
  "euler_ivp f t_span y0 t_eval max_step =
     (if list_ex (\<lambda>t. t < min (fst t_span) (snd t_span) \<or> max (fst t_span) (snd t_span) < t) t_eval
        then Inl (ValueError ''Values in t_eval are not within t_span.'')
      else if \<not> sorted_wrt (<) t_eval
        then Inl (ValueError ''Values in t_eval are not properly sorted.'')
      else if max_step \<le> 0
        then Inl (ValueError ''max_step must be positive.'')
      else
        (case f (fst t_span) y0 of
           Inl e \<Rightarrow> Inl e
         | Inr d \<Rightarrow>
             if \<not> finite_state d
             then Inr \<lparr>sol_y = [], success = False,
                       message = ''Required step size is less than spacing between numbers.''\<rparr>
             else
               (case euler_path f (fst t_span) y0 t_eval of
                  Inl e \<Rightarrow> Inl e
                | Inr (ys, ok) \<Rightarrow>
                    Inr \<lparr>sol_y = ys, success = ok,
                         message =
                           (if ok
                            then ''The solver successfully reached the end of the integration interval.''
                            else ''Required step size is less than spacing between numbers.'')\<rparr>)))"

text \<open>
  \<open>stalled_ivp\<close> behaves as SciPy does when its step size collapses: no exception, a
  result with \<open>success = False\<close>, the diagnostic, and only the states reached so far
  (here the first two evaluation times, held at the initial state).
\<close>

definition stalled_ivp :: solve_ivp where
  "stalled_ivp f t_span y0 t_eval max_step =
     (case f (fst t_span) y0 of
        Inl e \<Rightarrow> Inl e
      | Inr d \<Rightarrow>
          Inr \<lparr>sol_y = map (\<lambda>_. y0) (take 2 t_eval), success = False,
               message = ''Required step size is less than spacing between numbers.''\<rparr>)"

text \<open>
  \<open>level_rng T0 c\<close> is a generator whose noise brings every sample of the raw signal
  of duration \<open>T0\<close> to the level \<open>c\<close>; its state counts the samples drawn.
\<close>

definition wavelets :: "real \<Rightarrow> real \<Rightarrow> real" where
  "wavelets T ti =
     (0.8 * ricker ti (T / 3 - 5) 1.0
      + 1.2 * ricker ti (T / 3) 2.5
      + 0.6 * ricker ti (T / 3 + 5) 4.0
      + 0.3 * ricker ti (T / 2) 1.2
      + 0.4 * ricker ti (2 * T / 3) 3.0) * exp (- (((ti - T / 2) / (T / 4))\<^sup>2))"

definition level_rng :: "real \<Rightarrow> real \<Rightarrow> nat generator" where
  "level_rng T0 c =
     \<lparr>seed_state = (\<lambda>seed. 0),
      next_normal = (\<lambda>i. ((c - wavelets T0 (0 + real i * 0.01)) / 0.05, Suc i))\<rparr>"

text \<open>
  \<open>profile_rng T0 cs\<close> is a generator whose noise brings the samples of the raw signal
  of duration \<open>T0\<close> to the values listed in \<open>cs\<close>, one after the other.
\<close>

definition profile_rng :: "real \<Rightarrow> real list \<Rightarrow> nat generator" where
  "profile_rng T0 cs =
     \<lparr>seed_state = (\<lambda>seed. 0),
      next_normal = (\<lambda>i. (((if i < length cs then cs ! i else 0)
                                - wavelets T0 (0 + real i * 0.01)) / 0.05, Suc i))\<rparr>"

text \<open>
  The two properties of SciPy's integrator that the theorems below rely on.
  \<open>keeps_rest ivp T\<close> concerns the one call that \<open>resolver_sdof\<close> makes for the
  duration \<open>T\<close> (its span, initial state, evaluation times and step cap): when the
  right-hand side vanishes at the state of rest at all times, the integrator returns the
  state of rest at every evaluation time.
\<close>

definition keeps_rest :: "solve_ivp \<Rightarrow> real \<Rightarrow> bool" where
  "keeps_rest ivp T \<longleftrightarrow>
     (\<forall>f. (\<forall>t. f t (Fin 0, Fin 0) = Inr (Fin 0, Fin 0)) \<longrightarrow>
        (\<exists>sol. ivp f (0, T) (Fin 0, Fin 0) (arange 0 T 0.01) 0.01 = Inr sol
             \<and> sol_y sol = map (\<lambda>_. (Fin 0, Fin 0)) (arange 0 T 0.01)))"

definition passes_exceptions :: "solve_ivp \<Rightarrow> bool" where
  "passes_exceptions ivp \<longleftrightarrow>
     (\<forall>f t_span y0 t_eval max_step.
        (\<forall>t y. isl (f t y)) \<longrightarrow> isl (ivp f t_span y0 t_eval max_step))"

section \<open>Rounding\<close>

lemma round_even_err: "\<bar>of_int (round_even y) - y\<bar> \<le> 1/2"
  unfolding round_even_def Let_def by (auto simp: abs_if) linarith+

lemma round_even_of_int [simp]: "round_even (of_int k) = k"
  by (simp add: round_even_def)

lemma rnd64_eval:
  assumes "2 powi e \<le> \<bar>x\<bar>" and "\<bar>x\<bar> < 2 powi (e + 1)"
  shows "rnd64 x = of_int (round_even (x / 2 powi (e - 52))) * 2 powi (e - 52)"
proof -
  have pos: "0 < \<bar>x\<bar>" using assms(1) by (smt (verit) zero_less_power_int)
  have "2 powr (real_of_int e + 1) = 2 powr real_of_int (e + 1)" by simp
  then have "\<lfloor>log 2 \<bar>x\<bar>\<rfloor> = e"
    using assms pos by (simp add: floor_log_eq_powr_iff powr_real_of_int' del: of_int_add)
  then show ?thesis using pos by (simp add: rnd64_def Let_def)
qed


lemma rnd64_err: "\<bar>rnd64 x - x\<bar> \<le> \<bar>x\<bar> / 2^53"
proof (cases "x = 0")
  case True
  then show ?thesis by (simp add: rnd64_def)
next
  case False
  define e where "e = \<lfloor>log 2 \<bar>x\<bar>\<rfloor>"
  define u :: real where "u = 2 powi (e - 52)"
  have upos: "0 < u" by (simp add: u_def)
  have "2 powr (of_int e) \<le> \<bar>x\<bar>"
    using False floor_log_eq_powr_iff[of "\<bar>x\<bar>" 2 e] by (simp add: e_def)
  then have lo: "2 powi e \<le> \<bar>x\<bar>" by (simp add: powr_real_of_int')
  have r: "rnd64 x = of_int (round_even (x / u)) * u"
    using False by (simp add: rnd64_def Let_def e_def u_def)
  have "\<bar>of_int (round_even (x / u)) * u - x\<bar> = \<bar>of_int (round_even (x / u)) - x / u\<bar> * u"
    using upos by (simp add: field_simps abs_mult flip: abs_mult_pos)
  also have "\<dots> \<le> (1/2) * u"
    using round_even_err[of "x / u"] upos by (intro mult_right_mono) simp_all
  also have "(1/2) * u = 2 powi e / 2^53"
    by (simp add: u_def power_int_diff)
  also have "\<dots> \<le> \<bar>x\<bar> / 2^53"
    using lo by (simp add: divide_right_mono)
  finally show ?thesis by (simp add: r)
qed

lemma rnd64_pos: "0 < x \<Longrightarrow> 0 < rnd64 x"
proof -
  assume x: "0 < x"
  define d where "d = x / 2^53"
  have "\<bar>rnd64 x - x\<bar> \<le> d" using rnd64_err[of x] x by (simp add: d_def)
  then have "x - rnd64 x \<le> d" by linarith
  moreover have "d < x" using x by (simp add: d_def)
  ultimately show ?thesis by linarith
qed

lemma rnd64_zero [simp]: "rnd64 0 = 0"
  by (simp add: rnd64_def)








section \<open>Arrays, peaks and the generator\<close>



lemma distinct_arange: "step \<noteq> 0 \<Longrightarrow> distinct (arange start stop step)"
  by (simp add: arange_def distinct_map inj_on_def)

lemma arange_nonempty: "0 < T \<Longrightarrow> arange 0 T 0.01 \<noteq> []"
proof -
  assume "0 < T"
  then have "0 < rnd64 (rnd64 T)" by (intro rnd64_pos)
  moreover have "0 < rnd64 0.01" by (intro rnd64_pos) simp
  ultimately have "0 < rnd64 (rnd64 T) / rnd64 0.01" by simp
  then have "0 < rnd64 (rnd64 (rnd64 T) / rnd64 0.01)" by (rule rnd64_pos)
  then have "0 < arange_len 0 T 0.01" by (simp add: arange_len_def)
  then show ?thesis by (simp add: arange_def)
qed

lemma rnd64_c1: "rnd64 (1 / 100) = 5764607523034235 / 576460752303423488"
  by (subst rnd64_eval[where e = "-7"]) (simp_all add: round_even_def power_int_minus)

lemma rnd64_c2: "rnd64 (5764607523034235 / 576460752303423488) = 5764607523034235 / 576460752303423488"
  by (subst rnd64_eval[where e = "-7"]) (simp_all add: round_even_def power_int_minus)

lemma rnd64_c3: "rnd64 (1) = 1"
  by (subst rnd64_eval[where e = "0"]) (simp_all add: round_even_def power_int_minus)

lemma arange_len_1: "arange_len 0 (1 / 100) (1/100) = 1"
proof -
  have "\<lceil>(1) :: real\<rceil> = 1" by (simp add: ceiling_eq_iff)
  then show ?thesis by (simp add: arange_len_def rnd64_c1 rnd64_c2 rnd64_c3)
qed

lemma arange_1: "arange 0 (1 / 100) (1/100) = [0]"
  by (simp add: arange_def arange_len_1 upt_rec)

lemma rnd64_c4: "rnd64 (1 / 50) = 5764607523034235 / 288230376151711744"
  by (subst rnd64_eval[where e = "-6"]) (simp_all add: round_even_def power_int_minus)

lemma rnd64_c5: "rnd64 (5764607523034235 / 288230376151711744) = 5764607523034235 / 288230376151711744"
  by (subst rnd64_eval[where e = "-6"]) (simp_all add: round_even_def power_int_minus)

lemma rnd64_c6: "rnd64 (2) = 2"
  by (subst rnd64_eval[where e = "1"]) (simp_all add: round_even_def power_int_minus)

lemma arange_len_2: "arange_len 0 (1 / 50) (1/100) = 2"
proof -
  have "\<lceil>(2) :: real\<rceil> = 2" by (simp add: ceiling_eq_iff)
  then show ?thesis by (simp add: arange_len_def rnd64_c1 rnd64_c4 rnd64_c5 rnd64_c6)
qed

lemma arange_2: "arange 0 (1 / 50) (1/100) = [0, 1 / 100]"
  by (simp add: arange_def arange_len_2 upt_rec)






lemma rnd64_c10: "rnd64 (3 / 100) = 1080863910568919 / 36028797018963968"
  by (subst rnd64_eval[where e = "-6"]) (simp_all add: round_even_def power_int_minus)

lemma rnd64_c11: "rnd64 (1080863910568919 / 36028797018963968) = 1080863910568919 / 36028797018963968"
  by (subst rnd64_eval[where e = "-6"]) (simp_all add: round_even_def power_int_minus)

lemma rnd64_c12: "rnd64 (17293822569102704 / 5764607523034235) = 3"
  by (subst rnd64_eval[where e = "1"]) (simp_all add: round_even_def power_int_minus)

lemma arange_len_3: "arange_len 0 (3 / 100) (1/100) = 3"
proof -
  have "\<lceil>(3) :: real\<rceil> = 3" by (simp add: ceiling_eq_iff)
  then show ?thesis by (simp add: arange_len_def rnd64_c1 rnd64_c10 rnd64_c11 rnd64_c12)
qed

lemma arange_3: "arange 0 (3 / 100) (1/100) = [0, 1 / 100, 1 / 50]"
  by (simp add: arange_def arange_len_3 upt_rec)

lemma rnd64_c13: "rnd64 (1 / 25) = 5764607523034235 / 144115188075855872"
  by (subst rnd64_eval[where e = "-5"]) (simp_all add: round_even_def power_int_minus)

lemma rnd64_c14: "rnd64 (5764607523034235 / 144115188075855872) = 5764607523034235 / 144115188075855872"
  by (subst rnd64_eval[where e = "-5"]) (simp_all add: round_even_def power_int_minus)

lemma rnd64_c15: "rnd64 (4) = 4"
  by (subst rnd64_eval[where e = "2"]) (simp_all add: round_even_def power_int_minus)

lemma arange_len_4: "arange_len 0 (1 / 25) (1/100) = 4"
proof -
  have "\<lceil>(4) :: real\<rceil> = 4" by (simp add: ceiling_eq_iff)
  then show ?thesis by (simp add: arange_len_def rnd64_c1 rnd64_c13 rnd64_c14 rnd64_c15)
qed

lemma arange_4: "arange 0 (1 / 25) (1/100) = [0, 1 / 100, 1 / 50, 3 / 100]"
  by (simp add: arange_def arange_len_4 upt_rec)







lemma raw_signal_grid: "fst (raw_signal R T seed) = arange 0 T 0.01"
  by (simp add: raw_signal_def Let_def split_beta)


lemma py_max_Max: "xs \<noteq> [] \<Longrightarrow> py_max xs = Inr (Max (set xs))"
proof -
  have fold_max: "fold (\<lambda>item best. if best < item then item else best) ys (x::real) = Max (set (x # ys))" for ys x
  proof (induction ys arbitrary: x)
    case Nil
    show ?case by simp
  next
    case (Cons y ys)
    have "Max (insert x (insert y (set ys))) = Max (insert (max x y) (set ys))"
      by (metis List.finite_set Max_insert Max_singleton finite_insert max.assoc insert_not_empty) 
    then show ?case using Cons[of "if x < y then y else x"] 
      by (simp add: max_def not_less split: if_splits)
  qed
  assume "xs \<noteq> []"
  then show ?thesis by (cases xs) (simp_all add: py_max_def fold_max)
qed

lemma normalizar_nonempty:
  "acc \<noteq> [] \<Longrightarrow> normalizar acc intensidad =
     Inr (map (\<lambda>a. np_mul (np_div (Fin a) (Fin (Max (set (map abs acc))))) (Fin (0.6 * intensidad))) acc)"
  by (simp add: normalizar_def py_max_Max)

lemma peak_pos:
  assumes "\<exists>a \<in> set acc. a \<noteq> (0::real)"
  shows "0 < Max (set (map abs acc))"
proof -
  from assms obtain a where a: "a \<in> set acc" "a \<noteq> 0" by blast
  then have "\<bar>a\<bar> \<in> set (map abs acc)" by simp
  then have "\<bar>a\<bar> \<le> Max (set (map abs acc))" by (intro Max_ge) simp_all
  moreover have "0 < \<bar>a\<bar>" using a by simp
  ultimately show ?thesis by linarith
qed

lemma normalizar_peak:
  assumes nz: "\<exists>a \<in> set acc. a \<noteq> (0::real)" and s: "0 < intensidad"
  defines "M \<equiv> Max (set (map abs acc))"
  defines "ys \<equiv> map (\<lambda>a. a / M * (0.6 * intensidad)) acc"
  shows "normalizar acc intensidad = Inr (map Fin ys)"
    and "py_max (map abs ys) = Inr (0.6 * intensidad)"
proof -
  from nz have ne: "acc \<noteq> []" by auto
  have M: "0 < M" unfolding M_def using nz by (rule peak_pos)
  show "normalizar acc intensidad = Inr (map Fin ys)"
    using M by (simp add: normalizar_nonempty[OF ne] ys_def M_def)
  have fin: "finite (set (map abs acc))" and nonempty: "set (map abs acc) \<noteq> {}"
    using ne by simp_all
  have le: "\<bar>a\<bar> \<le> M" if "a \<in> set acc" for a
    unfolding M_def using that by (intro Max_ge) simp_all
  have "M \<in> set (map abs acc)" unfolding M_def using fin nonempty by (rule Max_in)
  then obtain a0 where a0: "a0 \<in> set acc" "\<bar>a0\<bar> = M" by auto
  have ysne: "map abs ys \<noteq> []" using ne by (simp add: ys_def)
  have "Max (set (map abs ys)) = 0.6 * intensidad"
  proof (rule Max_eqI)
    show "finite (set (map abs ys))" by simp
  next
    fix y assume "y \<in> set (map abs ys)"
    then obtain a where a: "a \<in> set acc" and y: "y = \<bar>a / M * (0.6 * intensidad)\<bar>"
      by (auto simp: ys_def)
    define r where "r = \<bar>a\<bar> / M"
    define q where "q = 0.6 * intensidad"
    have q: "0 < q" using s by (simp add: q_def)
    have "y = r * q"
      using M s by (simp add: y abs_mult r_def q_def)
    moreover have "r \<le> 1" using le[OF a] M by (simp add: r_def)
    ultimately have "y \<le> q"
      using q by (simp add: mult_le_cancel_right1)
    then show "y \<le> 0.6 * intensidad" by (simp add: q_def)
  next
    have "\<bar>a0 / M * (0.6 * intensidad)\<bar> = 0.6 * intensidad"
      using a0 M s by (simp add: abs_mult)
    then show "0.6 * intensidad \<in> set (map abs ys)"
      using a0(1) by (force simp: ys_def)
  qed
  then show "py_max (map abs ys) = Inr (0.6 * intensidad)"
    by (simp add: py_max_Max[OF ysne])
qed

lemma normalizar_zero:
  assumes "acc \<noteq> []" and "\<forall>a \<in> set acc. a = (0::real)"
  shows "normalizar acc intensidad = Inr (map (\<lambda>_. NaN) acc)"
proof -
  have "set (map abs acc) = {0}" using assms by (cases acc) auto
  then have "Max (set (map abs acc)) = 0" by simp
  then show ?thesis using assms(2) by (simp add: normalizar_nonempty[OF assms(1)])
qed

lemma randn_level:
  "randn (level_rng T0 c) i n =
     (map (\<lambda>j. (c - wavelets T0 (0 + real j * 0.01)) / 0.05) [i ..< i + n], i + n)"
proof (induction n arbitrary: i)
  case 0
  show ?case by simp
next
  case (Suc n)
  have "[i ..< i + Suc n] = i # [Suc i ..< Suc i + n]"
    by (simp add: upt_conv_Cons)
  then show ?case
    using Suc[of "Suc i"] by (simp add: level_rng_def)
qed

lemma level_cancel:
  assumes "ts = map g [0 ..< n]"
  shows "map2 (\<lambda>a z. a + 0.05 * z) (map2 (*) (map A ts) (map E ts))
           (map (\<lambda>j. (c - A (g j) * E (g j)) / 0.05) [0 ..< n]) = map (\<lambda>_. c :: real) ts"
  by (rule nth_equalityI) (simp_all add: assms field_simps)

lemma raw_signal_level:
  "raw_signal (level_rng T c) T seed =
     (arange 0 T 0.01, map (\<lambda>_. c) (arange 0 T 0.01), length (arange 0 T 0.01))"
proof -
  let ?t = "arange 0 T 0.01"
  let ?n = "length ?t"
  have seed: "seed_state (level_rng T c) seed = 0" by (simp add: level_rng_def)
  have noise: "randn (level_rng T c) 0 ?n =
      (map (\<lambda>j. (c - wavelets T (0 + real j * 0.01)) / 0.05) [0 ..< ?n], ?n)"
    using randn_level[of T c 0 ?n] by simp
  have t: "?t = map (\<lambda>i. 0 + real i * 0.01) [0 ..< ?n]"
    by (simp add: arange_def)
  show ?thesis
    unfolding raw_signal_def Let_def seed noise prod.case wavelets_def
    using level_cancel[OF t, where c = c]
    by (simp only: prod.inject simp_thms)
qed

section \<open>Interpolation, differences and the integrators\<close>

lemma interp_mismatch: "length fp \<noteq> length xp \<Longrightarrow> isl (interp x xp fp)"
  by (simp add: interp_def)

lemma interp_zero:
  assumes "xp \<noteq> []" and "distinct xp"
  shows "interp x xp (map (\<lambda>_. Fin 0) xp) = Inr (Fin 0)"
proof -
  let ?j = "length (takeWhile (\<lambda>p. p \<le> x) xp) - 1"
  have le: "length (takeWhile (\<lambda>p. p \<le> x) xp) \<le> length xp"
    by (rule length_takeWhile_le)
  have n: "0 < length xp" using assms(1) by simp
  have j: "?j < length xp" using le n by linarith
  have slope: "np_div (np_sub (Fin 0) (Fin 0)) (Fin (xp ! (?j + 1) - xp ! ?j)) = Fin 0"
    if "?j \<noteq> length xp - 1"
  proof -
    from that le n have "?j + 1 < length xp" by linarith
    with j assms(2) have "xp ! (?j + 1) \<noteq> xp ! ?j"
      by (simp add: nth_eq_iff_index_eq)
    then show ?thesis by (simp add: np_sub_def)
  qed
  have fpj: "map (\<lambda>_. Fin 0) xp ! ?j = Fin 0" using j by simp
  have fpj1: "map (\<lambda>_. Fin 0) xp ! (?j + 1) = Fin 0" if "?j \<noteq> length xp - 1"
  proof -
    from that le n have "?j + 1 < length xp" by linarith
    then show ?thesis by simp
  qed
  show ?thesis
    using assms(1) slope fpj fpj1
    by (simp add: interp_def Let_def hd_map last_map del: One_nat_def)
qed

lemma gradient_short: "length f < 2 \<Longrightarrow> isl (gradient f dx)"
  by (simp add: gradient_def)

lemma gradient_long: "2 \<le> length f \<Longrightarrow> \<exists>a. gradient f dx = Inr a \<and> length a = length f"
  by (simp add: gradient_def Let_def)

lemma gradient_zero:
  assumes "2 \<le> length ts" and "dx \<noteq> 0"
  shows "gradient (map (\<lambda>_. Fin 0) ts) dx = Inr (map (\<lambda>_. Fin 0) ts)"
proof -
  have "map (\<lambda>i. if i = 0 then np_div (np_sub (map (\<lambda>_. Fin 0) ts ! 1) (map (\<lambda>_. Fin 0) ts ! 0)) (Fin dx)
                else if i = length ts - 1 then np_div (np_sub (map (\<lambda>_. Fin 0) ts ! (length ts - 1)) (map (\<lambda>_. Fin 0) ts ! (length ts - 2))) (Fin dx)
                else np_div (np_sub (map (\<lambda>_. Fin 0) ts ! (i + 1)) (map (\<lambda>_. Fin 0) ts ! (i - 1))) (Fin (2 * dx)))
              [0 ..< length ts] = map (\<lambda>_. Fin 0) ts"
    using assms by (intro nth_equalityI) (auto simp: np_sub_def)
  then show ?thesis using assms(1) by (simp add: gradient_def Let_def)
qed

lemma np_add_zero_right: "np_add x (Fin 0) = x"
  by (cases x) simp_all

lemma modelo_mismatch: "length F_t \<noteq> length t \<Longrightarrow> isl (modelo_sdof m c k t F_t ti y)"
proof -
  assume "length F_t \<noteq> length t"
  then have "isl (interp ti t F_t)" by (rule interp_mismatch)
  then show ?thesis by (cases "interp ti t F_t") (simp_all add: modelo_sdof_def split_beta)
qed

lemma modelo_rest:
  assumes "t \<noteq> []" and "distinct t" and "m \<noteq> 0"
  shows "modelo_sdof m c k t (map (\<lambda>_. Fin 0) t) ti (Fin 0, Fin 0) = Inr (Fin 0, Fin 0)"
  using assms by (simp add: modelo_sdof_def interp_zero np_sub_def)



lemma force_zero: "map (\<lambda>ag. np_mul (Fin (- m)) ag) (map (\<lambda>_. Fin 0) t) = map (\<lambda>_. Fin 0) t"
  by simp

lemma euler_path_rest:
  assumes "\<forall>t. f t y0 = Inr (Fin 0, Fin 0)"
  shows "euler_path f t y0 ts = Inr (map (\<lambda>_. y0) ts, True)"
proof (induction ts arbitrary: t)
  case Nil
  show ?case by simp
next
  case (Cons t' ts)
  have "f t y0 = Inr (Fin 0, Fin 0)" using assms by blast
  then show ?case using Cons[of t'] by (auto simp: np_add_zero_right finite_state_def)
qed

lemma euler_keeps_rest: "keeps_rest euler_ivp (3/100)"
  unfolding keeps_rest_def
proof (intro allI impI)
  fix f :: rhs
  assume rest: "\<forall>t. f t (Fin 0, Fin 0) = Inr (Fin 0, Fin 0)"
  then have "f 0 (Fin 0, Fin 0) = Inr (Fin 0, Fin 0)" by blast
  then show "\<exists>sol. euler_ivp f (0, 3/100) (Fin 0, Fin 0) (arange 0 (3/100) 0.01) 0.01 = Inr sol
                 \<and> sol_y sol = map (\<lambda>_. (Fin 0, Fin 0)) (arange 0 (3/100) 0.01)"
    using euler_path_rest[of f "(Fin 0, Fin 0)" 0 "arange 0 (3/100) (1/100)"] rest
    by (simp add: euler_ivp_def arange_3 finite_state_def)
qed

lemma euler_passes_exceptions: "passes_exceptions euler_ivp"
  unfolding passes_exceptions_def
proof (intro allI impI)
  fix f :: rhs and t_span :: "real \<times> real" and y0 :: state and t_eval :: "real list"
    and max_step :: real
  assume "\<forall>t y. isl (f t y)"
  then have "isl (f (fst t_span) y0)" by blast
  then show "isl (euler_ivp f t_span y0 t_eval max_step)"
    by (cases "f (fst t_span) y0") (simp_all add: euler_ivp_def)
qed

lemma intentar_raised:
  assumes "ivp (modelo_sdof m c k (arange 0 T 0.01) (map (\<lambda>ag. np_mul (Fin (- m)) ag) acc_ground))
             (0, T) (Fin 0, Fin 0) (arange 0 T 0.01) 0.01 = Inl e"
  shows "intentar_sdof ivp m c k T acc_ground = Inl e"
  using assms unfolding intentar_sdof_def Let_def by (simp only: sum.case)

lemma intentar_empty:
  assumes "ivp (modelo_sdof m c k (arange 0 T 0.01) (map (\<lambda>ag. np_mul (Fin (- m)) ag) acc_ground))
             (0, T) (Fin 0, Fin 0) (arange 0 T 0.01) 0.01 = Inr sol"
    and "sol_y sol = []"
  shows "intentar_sdof ivp m c k T acc_ground = Inl (IndexError ''list index out of range'')"
  using assms unfolding intentar_sdof_def Let_def by (simp only: sum.case if_True simp_thms)

lemma intentar_single:
  assumes "ivp (modelo_sdof m c k (arange 0 T 0.01) (map (\<lambda>ag. np_mul (Fin (- m)) ag) acc_ground))
             (0, T) (Fin 0, Fin 0) (arange 0 T 0.01) 0.01 = Inr sol"
    and "length (sol_y sol) < 2"
  shows "isl (intentar_sdof ivp m c k T acc_ground)"
proof (cases "sol_y sol = []")
  case True
  with assms(1) show ?thesis by (simp add: intentar_empty)
next
  case False
  have "isl (gradient (map snd (sol_y sol)) 0.01)"
    using assms(2) by (intro gradient_short) simp
  then obtain e where "gradient (map snd (sol_y sol)) 0.01 = Inl e"
    by (cases "gradient (map snd (sol_y sol)) 0.01") simp_all
  then show ?thesis
    using assms(1) False unfolding intentar_sdof_def Let_def by (simp only: sum.case sum.disc if_False simp_thms)
qed

lemma intentar_returned:
  assumes "ivp (modelo_sdof m c k (arange 0 T 0.01) (map (\<lambda>ag. np_mul (Fin (- m)) ag) acc_ground))
             (0, T) (Fin 0, Fin 0) (arange 0 T 0.01) 0.01 = Inr sol"
    and "2 \<le> length (sol_y sol)"
  shows "\<exists>a. gradient (map snd (sol_y sol)) 0.01 = Inr a \<and> length a = length (sol_y sol) \<and>
     intentar_sdof ivp m c k T acc_ground =
       Inr \<lparr>resp_t = arange 0 T 0.01,
            resp_x = map fst (sol_y sol),
            resp_v = map snd (sol_y sol),
            resp_a = a,
            E_cinetica = map (\<lambda>vi. np_mul (Fin (0.5 * m)) (np_mul vi vi)) (map snd (sol_y sol)),
            E_potencial = map (\<lambda>xi. np_mul (Fin (0.5 * k)) (np_mul xi xi)) (map fst (sol_y sol)),
            E_total = map2 np_add
              (map (\<lambda>vi. np_mul (Fin (0.5 * m)) (np_mul vi vi)) (map snd (sol_y sol)))
              (map (\<lambda>xi. np_mul (Fin (0.5 * k)) (np_mul xi xi)) (map fst (sol_y sol)))\<rparr>"
proof -
  have ne: "sol_y sol \<noteq> []" using assms(2) by auto
  have "2 \<le> length (map snd (sol_y sol))" using assms(2) by simp
  from gradient_long[OF this, of "0.01"]
  obtain a where a: "gradient (map snd (sol_y sol)) 0.01 = Inr a" "length a = length (sol_y sol)"
    by auto
  show ?thesis
    using assms(1) a ne unfolding intentar_sdof_def Let_def
    by (simp only: sum.case simp_thms ex_simps if_False) blast
qed





section \<open>Rounded products\<close>

lemma up_to_self: "up_to 0 x x"
  by (simp add: up_to_def)

lemma up_to_rnd:
  assumes "up_to k x y"
  shows "up_to (Suc k) (rnd64 x) y"
proof -
  define u :: real where "u = 1 / 2^53"
  define E where "E = (1 + u)^k - 1"
  have u: "0 \<le> u" by (simp add: u_def)
  have "1 \<le> (1 + u)^k" using u by (intro one_le_power) simp
  then have E: "0 \<le> E" by (simp add: E_def)
  have xy: "\<bar>x - y\<bar> \<le> E * \<bar>y\<bar>" using assms by (simp add: up_to_def E_def u_def)
  then have "\<bar>x\<bar> \<le> \<bar>y\<bar> + E * \<bar>y\<bar>" by linarith
  then have "u * \<bar>x\<bar> \<le> u * (\<bar>y\<bar> + E * \<bar>y\<bar>)" using u by (rule mult_left_mono)
  moreover have "\<bar>rnd64 x - x\<bar> \<le> u * \<bar>x\<bar>" using rnd64_err[of x] by (simp add: u_def)
  ultimately have "\<bar>rnd64 x - y\<bar> \<le> u * (\<bar>y\<bar> + E * \<bar>y\<bar>) + E * \<bar>y\<bar>"
    using xy by linarith
  also have "\<dots> = ((1 + u)^(Suc k) - 1) * \<bar>y\<bar>" by (simp add: E_def algebra_simps)
  finally show ?thesis by (simp add: up_to_def u_def)
qed

lemma up_to_mult:
  assumes "up_to j a a'" and "up_to k b b'"
  shows "up_to (j + k) (a * b) (a' * b')"
proof -
  define u :: real where "u = 1 / 2^53"
  define A where "A = (1 + u)^j - 1"
  define B where "B = (1 + u)^k - 1"
  have u: "0 \<le> u" by (simp add: u_def)
  have "1 \<le> (1 + u)^j" and "1 \<le> (1 + u)^k" using u by (intro one_le_power; simp)+
  then have A: "0 \<le> A" and B: "0 \<le> B" by (simp_all add: A_def B_def)
  have a: "\<bar>a - a'\<bar> \<le> A * \<bar>a'\<bar>" using assms(1) by (simp add: up_to_def A_def u_def)
  have b: "\<bar>b - b'\<bar> \<le> B * \<bar>b'\<bar>" using assms(2) by (simp add: up_to_def B_def u_def)
  have split: "a * b - a' * b' = (a - a') * b' + a' * (b - b') + (a - a') * (b - b')"
    by (simp add: algebra_simps)
  have t1: "\<bar>(a - a') * b'\<bar> \<le> A * \<bar>a'\<bar> * \<bar>b'\<bar>"
    unfolding abs_mult using a by (intro mult_right_mono) simp_all
  have t2: "\<bar>a' * (b - b')\<bar> \<le> \<bar>a'\<bar> * (B * \<bar>b'\<bar>)"
    unfolding abs_mult using b by (intro mult_left_mono) simp_all
  have t3: "\<bar>(a - a') * (b - b')\<bar> \<le> (A * \<bar>a'\<bar>) * (B * \<bar>b'\<bar>)"
    unfolding abs_mult using a b A B by (intro mult_mono) simp_all
  have "\<bar>a * b - a' * b'\<bar> \<le> A * \<bar>a'\<bar> * \<bar>b'\<bar> + \<bar>a'\<bar> * (B * \<bar>b'\<bar>) + (A * \<bar>a'\<bar>) * (B * \<bar>b'\<bar>)"
    unfolding split using t1 t2 t3 by linarith
  also have "\<dots> = ((1 + u)^(j + k) - 1) * \<bar>a' * b'\<bar>"
    by (simp add: A_def B_def power_add abs_mult algebra_simps)
  finally show ?thesis by (simp add: up_to_def u_def)
qed

lemma up_to_five: "up_to 5 x y \<Longrightarrow> \<bar>x - y\<bar> \<le> 6 / 2^53 * \<bar>y\<bar>"
proof -
  assume "up_to 5 x y"
  then have "\<bar>x - y\<bar> \<le> ((1 + 1 / 2^53)^5 - 1) * \<bar>y\<bar>" by (simp only: up_to_def)
  moreover have "((1 + 1 / 2^53)^5 - 1 :: real) \<le> 6 / 2^53" by (simp add: power_divide)
  then have "((1 + 1 / 2^53)^5 - 1) * \<bar>y\<bar> \<le> 6 / 2^53 * \<bar>y\<bar>"
    by (rule mult_right_mono) simp
  ultimately show ?thesis by linarith
qed

lemma up_to_seven: "up_to 7 x y \<Longrightarrow> \<bar>x - y\<bar> \<le> 8 / 2^53 * \<bar>y\<bar>"
proof -
  assume "up_to 7 x y"
  then have "\<bar>x - y\<bar> \<le> ((1 + 1 / 2^53)^7 - 1) * \<bar>y\<bar>" by (simp only: up_to_def)
  moreover have "((1 + 1 / 2^53)^7 - 1 :: real) \<le> 8 / 2^53" by (simp add: power_divide)
  then have "((1 + 1 / 2^53)^7 - 1) * \<bar>y\<bar> \<le> 8 / 2^53 * \<bar>y\<bar>"
    by (rule mult_right_mono) simp
  ultimately show ?thesis by linarith
qed

lemma scaled_sample:
  "up_to 5 (rnd64 (rnd64 q * rnd64 (rnd64 c0 * rnd64 L))) (q * (c0 * L))"
proof -
  have one: "up_to (Suc 0) (rnd64 x) x" for x by (rule up_to_rnd) (rule up_to_self)
  have "up_to (Suc 0 + Suc 0) (rnd64 c0 * rnd64 L) (c0 * L)"
    using one[of c0] one[of L] by (rule up_to_mult)
  then have "up_to (Suc (Suc 0 + Suc 0)) (rnd64 (rnd64 c0 * rnd64 L)) (c0 * L)"
    by (rule up_to_rnd)
  with one[of q]
  have "up_to (Suc 0 + Suc (Suc 0 + Suc 0)) (rnd64 q * rnd64 (rnd64 c0 * rnd64 L)) (q * (c0 * L))"
    by (rule up_to_mult)
  then have "up_to (Suc (Suc 0 + Suc (Suc 0 + Suc 0)))
      (rnd64 (rnd64 q * rnd64 (rnd64 c0 * rnd64 L))) (q * (c0 * L))"
    by (rule up_to_rnd)
  then show ?thesis by (simp add: numeral_eq_Suc)
qed

lemma sample_scaled:
  "up_to 7 (rnd64 (rnd64 l * rnd64 (rnd64 q * rnd64 (rnd64 c0 * rnd64 I)))) (l * (q * (c0 * I)))"
proof -
  have "up_to (Suc 0) (rnd64 l) l" by (rule up_to_rnd) (rule up_to_self)
  then have "up_to (Suc 0 + 5) (rnd64 l * rnd64 (rnd64 q * rnd64 (rnd64 c0 * rnd64 I)))
      (l * (q * (c0 * I)))"
    using scaled_sample[of q c0 I] by (rule up_to_mult)
  then have "up_to (Suc (Suc 0 + 5)) (rnd64 (rnd64 l * rnd64 (rnd64 q * rnd64 (rnd64 c0 * rnd64 I))))
      (l * (q * (c0 * I)))"
    by (rule up_to_rnd)
  then show ?thesis by (simp add: numeral_eq_Suc)
qed

lemma normalizar_value:
  assumes "\<exists>a \<in> set acc. a \<noteq> (0::real)"
  shows "normalizar acc intensidad =
           Inr (map (\<lambda>a. Fin (a / Max (set (map abs acc)) * (0.6 * intensidad))) acc)"
    and "normalizar64 acc intensidad =
           Inr (map (\<lambda>a. Fin (rnd64 (rnd64 (a / Max (set (map abs acc)))
                                    * rnd64 (rnd64 0.6 * rnd64 intensidad)))) acc)"
proof -
  from assms have ne: "acc \<noteq> []" by auto
  have M: "0 < Max (set (map abs acc))" using assms by (rule peak_pos)
  show "normalizar acc intensidad =
           Inr (map (\<lambda>a. Fin (a / Max (set (map abs acc)) * (0.6 * intensidad))) acc)"
    using M by (simp add: normalizar_nonempty[OF ne])
  have "py_max (map abs acc) = Inr (Max (set (map abs acc)))"
    using ne by (intro py_max_Max) simp
  then show "normalizar64 acc intensidad =
           Inr (map (\<lambda>a. Fin (rnd64 (rnd64 (a / Max (set (map abs acc)))
                                    * rnd64 (rnd64 0.6 * rnd64 intensidad)))) acc)"
    using M by (simp add: normalizar64_def)
qed

lemma randn_profile:
  "randn (profile_rng T0 cs) i n =
     (map (\<lambda>j. ((if j < length cs then cs ! j else 0) - wavelets T0 (0 + real j * 0.01)) / 0.05)
        [i ..< i + n], i + n)"
proof (induction n arbitrary: i)
  case 0
  show ?case by simp
next
  case (Suc n)
  have "[i ..< i + Suc n] = i # [Suc i ..< Suc i + n]"
    by (simp add: upt_conv_Cons)
  then show ?case
    using Suc[of "Suc i"] by (simp add: profile_rng_def)
qed

lemma profile_cancel:
  assumes "ts = map g [0 ..< n]"
  shows "map2 (\<lambda>a z. a + 0.05 * z) (map2 (*) (map A ts) (map E ts))
           (map (\<lambda>j. (c j - A (g j) * E (g j)) / 0.05) [0 ..< n]) = map (c :: nat \<Rightarrow> real) [0 ..< n]"
  by (rule nth_equalityI) (simp_all add: assms field_simps)

lemma raw_signal_profile:
  "raw_signal (profile_rng T cs) T seed =
     (arange 0 T 0.01,
      map (\<lambda>j. if j < length cs then cs ! j else 0) [0 ..< length (arange 0 T 0.01)],
      length (arange 0 T 0.01))"
proof -
  let ?t = "arange 0 T 0.01"
  let ?n = "length ?t"
  have seed: "seed_state (profile_rng T cs) seed = 0" by (simp add: profile_rng_def)
  have noise: "randn (profile_rng T cs) 0 ?n =
      (map (\<lambda>j. ((if j < length cs then cs ! j else 0) - wavelets T (0 + real j * 0.01)) / 0.05)
         [0 ..< ?n], ?n)"
    using randn_profile[of T cs 0 ?n] by simp
  have t: "?t = map (\<lambda>i. 0 + real i * 0.01) [0 ..< ?n]"
    by (simp add: arange_def)
  show ?thesis
    unfolding raw_signal_def Let_def seed noise prod.case wavelets_def
    using profile_cancel[OF t, where c = "\<lambda>j. if j < length cs then cs ! j else 0"]
    by (simp only: prod.inject simp_thms)
qed

lemma rnd64_06: "rnd64 (3 / 5) = 5404319552844595 / 9007199254740992"
  by (subst rnd64_eval[where e = "-1"]) (simp_all add: round_even_def power_int_minus)

lemma rnd64_one: "rnd64 (1) = 1"
  by (subst rnd64_eval[where e = "0"]) (simp_all add: round_even_def power_int_minus)

lemma rnd64_78: "rnd64 (7 / 8) = 7 / 8"
  by (subst rnd64_eval[where e = "-1"]) (simp_all add: round_even_def power_int_minus)

lemma rnd64_p1: "rnd64 (16212958658533785 / 9007199254740992) = 2026619832316723 / 1125899906842624"
  by (subst rnd64_eval[where e = "0"]) (simp_all add: round_even_def power_int_minus)

lemma rnd64_p2: "rnd64 (2026619832316723 / 1125899906842624) = 2026619832316723 / 1125899906842624"
  by (subst rnd64_eval[where e = "0"]) (simp_all add: round_even_def power_int_minus)

lemma rnd64_p3: "rnd64 (14186338826217061 / 9007199254740992) = 3546584706554265 / 2251799813685248"
  by (subst rnd64_eval[where e = "0"]) (simp_all add: round_even_def power_int_minus)

lemma rnd64_p4: "rnd64 (5404319552844595 / 9007199254740992) = 5404319552844595 / 9007199254740992"
  by (subst rnd64_eval[where e = "-1"]) (simp_all add: round_even_def power_int_minus)

lemma rnd64_p5: "rnd64 (37830236869912165 / 72057594037927936) = 4728779608739021 / 9007199254740992"
  by (subst rnd64_eval[where e = "-1"]) (simp_all add: round_even_def power_int_minus)

lemma rnd64_p6: "rnd64 (14186338826217063 / 9007199254740992) = 1773292353277133 / 1125899906842624"
  by (subst rnd64_eval[where e = "0"]) (simp_all add: round_even_def power_int_minus)

lemma rnd64_three: "rnd64 (3) = 3"
  by (subst rnd64_eval[where e = "1"]) (simp_all add: round_even_def power_int_minus)

section \<open>Properties of the synthesis\<close>

text \<open>
  Claim C3. For a positive duration and a positive intensity, the record returned by
  \<open>generar_sismo\<close> consists of finite samples whose largest absolute value is exactly
  \<open>0.6 * intensidad\<close>, whatever the size of the raw signal, provided the raw signal has
  a sample different from zero (which the noise term ensures in practice).
\<close>

theorem peak_is_scaled_intensity:
  assumes "0 < T" and "0 < intensidad"
    and "\<exists>a \<in> set (fst (snd (raw_signal R T seed))). a \<noteq> 0"
  shows "\<exists>ys. fst (generar_sismo R w T intensidad seed) = Inr (arange 0 T 0.01, map Fin ys)
            \<and> py_max (map abs ys) = Inr (0.6 * intensidad)"
proof -
  obtain t acc g where raw: "raw_signal R T seed = (t, acc, g)"
    by (cases "raw_signal R T seed") auto
  have t: "t = arange 0 T 0.01" using raw_signal_grid[of R T seed] raw by simp
  have nz: "\<exists>a \<in> set acc. a \<noteq> 0" using assms(3) raw by simp
  let ?ys = "map (\<lambda>a. a / Max (set (map abs acc)) * (0.6 * intensidad)) acc"
  have "fst (generar_sismo R w T intensidad seed) = Inr (arange 0 T 0.01, map Fin ?ys)"
    using normalizar_peak(1)[OF nz assms(2)] raw t by (simp add: generar_sismo_def)
  moreover have "py_max (map abs ?ys) = Inr (0.6 * intensidad)"
    using normalizar_peak(2)[OF nz assms(2)] by simp
  ultimately show ?thesis by blast
qed

theorem peak_is_scaled_intensity_witness:
  "(0::real) < 1/50 \<and> (0::real) < 1
   \<and> (\<exists>a \<in> set (fst (snd (raw_signal (level_rng (1/50) 1) (1/50) 0))). a \<noteq> 0)
   \<and> (\<exists>ys. fst (generar_sismo (level_rng (1/50) 1) \<lparr>np_random = 0, st_errors = []\<rparr> (1/50) 1 0)
             = Inr (arange 0 (1/50) 0.01, map Fin ys)
           \<and> py_max (map abs ys) = Inr (0.6 * 1))"
proof -
  have h1: "(0::real) < 1/50" and h2: "(0::real) < 1" by simp_all
  have h3: "\<exists>a \<in> set (fst (snd (raw_signal (level_rng (1/50) 1) (1/50) 0))). a \<noteq> 0"
    by (simp add: raw_signal_level arange_2)
  show ?thesis
    using h1 h2 h3 peak_is_scaled_intensity[OF h1 h2 h3] by blast
qed

text \<open>
  Claim C4, as the code has it. When every sample of a non-empty raw signal is zero, the
  last statement of \<open>generar_sismo\<close> divides zero by zero: nothing is raised, and every
  sample of the returned record is \<open>NaN\<close>.
\<close>

theorem zero_signal_gives_nan:
  assumes "0 < T"
    and "fst (snd (raw_signal R T seed)) = map (\<lambda>_. 0) (arange 0 T 0.01)"
  shows "fst (generar_sismo R w T intensidad seed) =
           Inr (arange 0 T 0.01, map (\<lambda>_. NaN) (arange 0 T 0.01))"
proof -
  obtain t acc g where raw: "raw_signal R T seed = (t, acc, g)"
    by (cases "raw_signal R T seed") auto
  have t: "t = arange 0 T 0.01" using raw_signal_grid[of R T seed] raw by simp
  have acc: "acc = map (\<lambda>_. 0) (arange 0 T 0.01)" using assms(2) raw by simp
  have "acc \<noteq> []" using arange_nonempty[OF assms(1)] acc by simp
  moreover have "\<forall>a \<in> set acc. a = 0" using acc by auto
  ultimately have "normalizar acc intensidad = Inr (map (\<lambda>_. NaN) acc)"
    by (rule normalizar_zero)
  then show ?thesis using raw t acc by (simp add: generar_sismo_def comp_def)
qed

theorem zero_signal_gives_nan_witness:
  "(0::real) < 3/100
   \<and> fst (snd (raw_signal (level_rng (3/100) 0) (3/100) 7)) = map (\<lambda>_. 0) (arange 0 (3/100) 0.01)
   \<and> fst (generar_sismo (level_rng (3/100) 0) \<lparr>np_random = 0, st_errors = []\<rparr> (3/100) 2 7) =
       Inr (arange 0 (3/100) 0.01, map (\<lambda>_. NaN) (arange 0 (3/100) 0.01))"
proof -
  have h1: "(0::real) < 3/100" by simp
  have h2: "fst (snd (raw_signal (level_rng (3/100) 0) (3/100) 7)) =
      map (\<lambda>_. 0) (arange 0 (3/100) 0.01)"
    by (simp add: raw_signal_level)
  show ?thesis
    using h1 h2 zero_signal_gives_nan[OF h1 h2] by blast
qed

text \<open>
  The claim as the specification states it (an all-zero record is returned) fails: with
  a generator whose noise cancels the wavelets, a call of duration 0.02 and intensity 1
  returns two \<open>NaN\<close> samples.
\<close>

theorem zero_signal_counterexample:
  "fst (generar_sismo (level_rng (1/50) 0) \<lparr>np_random = 0, st_errors = []\<rparr> (1/50) 1 0) =
     Inr ([0, 1/100], [NaN, NaN])
   \<and> fst (snd (raw_signal (level_rng (1/50) 0) (1/50) 0)) = [0, 0]"
proof -
  have "arange 0 (1/50) (1/100) \<noteq> []" using arange_2 by simp
  then show ?thesis
    by (simp add: generar_sismo_def raw_signal_level arange_2 normalizar_zero)
qed

text \<open>
  Claim C5. The record returned by \<open>generar_sismo\<close> is a function of its arguments
  alone: the state in which the call finds the global generator has no influence, because
  the generator is reseeded from \<open>seed\<close> before the noise is drawn. In particular a
  second call, made in the state the first one left behind, returns the same arrays.
\<close>

theorem generar_sismo_deterministic:
  "fst (generar_sismo R w T intensidad seed) = fst (generar_sismo R w' T intensidad seed)
   \<and> fst (generar_sismo R (snd (generar_sismo R w T intensidad seed)) T intensidad seed) =
       fst (generar_sismo R w T intensidad seed)"
  by (simp add: generar_sismo_def Let_def split_beta split: sum.splits)

text \<open>
  Claim C10, as the code has it. Take a raw signal with a sample different from zero.
  The record synthesized at the intensity \<open>l * intensidad\<close>, and \<open>l\<close> times the record
  synthesized at \<open>intensidad\<close>, are equal up to the rounding of their float64 products:
  sample by sample they lie within 6 and 8 times \<open>2\<^sup>-\<^sup>5\<^sup>3\<close>, relatively, of \<open>l\<close> times
  the exact sample, hence within 14 times \<open>2\<^sup>-\<^sup>5\<^sup>3\<close> of each other. (Exponent limits
  aside: an underflow on the way is not covered.)
\<close>

theorem homogeneous_up_to_rounding:
  assumes "\<exists>a \<in> set (fst (snd (raw_signal R T seed))). a \<noteq> 0"
  shows "\<exists>es as bs.
       fst (generar_sismo R w T intensidad seed) = Inr (arange 0 T 0.01, map Fin es)
     \<and> fst (generar_sismo64 R w T (l * intensidad) seed) = Inr (arange 0 T 0.01, map Fin as)
     \<and> map_sum id (\<lambda>(t, acc). (t, scale64 l acc)) (fst (generar_sismo64 R w T intensidad seed)) =
         Inr (arange 0 T 0.01, map Fin bs)
     \<and> list_all2 (\<lambda>a e. \<bar>a - l * e\<bar> \<le> 6 / 2^53 * \<bar>l * e\<bar>) as es
     \<and> list_all2 (\<lambda>b e. \<bar>b - l * e\<bar> \<le> 8 / 2^53 * \<bar>l * e\<bar>) bs es
     \<and> list_all2 (\<lambda>(a, b) e. \<bar>a - b\<bar> \<le> 14 / 2^53 * \<bar>l * e\<bar>) (zip as bs) es"
proof -
  obtain t acc g where raw: "raw_signal R T seed = (t, acc, g)"
    by (cases "raw_signal R T seed") auto
  have t: "t = arange 0 T 0.01" using raw_signal_grid[of R T seed] raw by simp
  have nz: "\<exists>a \<in> set acc. a \<noteq> 0" using assms raw by simp
  define M where "M = Max (set (map abs acc))"
  define c0 :: real where "c0 = 0.6"
  define e where "e = (\<lambda>a. a / M * (c0 * intensidad))"
  define A where "A = (\<lambda>a. rnd64 (rnd64 (a / M) * rnd64 (rnd64 c0 * rnd64 (l * intensidad))))"
  define B where
    "B = (\<lambda>a. rnd64 (rnd64 l * rnd64 (rnd64 (a / M) * rnd64 (rnd64 c0 * rnd64 intensidad))))"
  have exact: "fst (generar_sismo R w T intensidad seed) = Inr (arange 0 T 0.01, map Fin (map e acc))"
    using normalizar_value(1)[OF nz, of intensidad] raw t
    by (simp add: generar_sismo_def e_def M_def c0_def comp_def)
  have scaled: "fst (generar_sismo64 R w T (l * intensidad) seed) =
      Inr (arange 0 T 0.01, map Fin (map A acc))"
    using normalizar_value(2)[OF nz, of "l * intensidad"] raw t
    by (simp add: generar_sismo64_def A_def M_def c0_def comp_def)
  have times: "map_sum id (\<lambda>(t, acc). (t, scale64 l acc)) (fst (generar_sismo64 R w T intensidad seed)) =
      Inr (arange 0 T 0.01, map Fin (map B acc))"
    using normalizar_value(2)[OF nz, of intensidad] raw t
    by (simp add: generar_sismo64_def B_def M_def c0_def comp_def scale64_def)
  have le: "l * e a = a / M * (c0 * (l * intensidad))" for a by (simp add: e_def)
  have near_A: "\<bar>A a - l * e a\<bar> \<le> 6 / 2^53 * \<bar>l * e a\<bar>" for a
    unfolding le A_def by (rule up_to_five) (rule scaled_sample)
  have near_B: "\<bar>B a - l * e a\<bar> \<le> 8 / 2^53 * \<bar>l * e a\<bar>" for a
    unfolding e_def B_def by (rule up_to_seven) (rule sample_scaled)
  have near_AB: "\<bar>A a - B a\<bar> \<le> 14 / 2^53 * \<bar>l * e a\<bar>" for a
    using near_A[of a] near_B[of a] by linarith
  have "list_all2 (\<lambda>a e. \<bar>a - l * e\<bar> \<le> 6 / 2^53 * \<bar>l * e\<bar>) (map A acc) (map e acc)"
    unfolding list_all2_map1 list_all2_map2 list_all2_same using near_A by blast
  moreover have "list_all2 (\<lambda>b e. \<bar>b - l * e\<bar> \<le> 8 / 2^53 * \<bar>l * e\<bar>) (map B acc) (map e acc)"
    unfolding list_all2_map1 list_all2_map2 list_all2_same using near_B by blast
  moreover have "list_all2 (\<lambda>(a, b) e. \<bar>a - b\<bar> \<le> 14 / 2^53 * \<bar>l * e\<bar>)
      (zip (map A acc) (map B acc)) (map e acc)"
    unfolding zip_map_map zip_same_conv_map map_map list_all2_map1 list_all2_map2 list_all2_same
    using near_AB by simp
  ultimately show ?thesis using exact scaled times by blast
qed

theorem homogeneous_up_to_rounding_witness:
  "(\<exists>a \<in> set (fst (snd (raw_signal (profile_rng (1/50) [1, 7/8]) (1/50) 0))). a \<noteq> 0)
   \<and> (\<exists>es as bs.
       fst (generar_sismo (profile_rng (1/50) [1, 7/8]) \<lparr>np_random = 0, st_errors = []\<rparr> (1/50) 1 0) =
         Inr (arange 0 (1/50) 0.01, map Fin es)
     \<and> fst (generar_sismo64 (profile_rng (1/50) [1, 7/8]) \<lparr>np_random = 0, st_errors = []\<rparr> (1/50) (3 * 1) 0) =
         Inr (arange 0 (1/50) 0.01, map Fin as)
     \<and> map_sum id (\<lambda>(t, acc). (t, scale64 3 acc))
          (fst (generar_sismo64 (profile_rng (1/50) [1, 7/8]) \<lparr>np_random = 0, st_errors = []\<rparr> (1/50) 1 0)) =
         Inr (arange 0 (1/50) 0.01, map Fin bs)
     \<and> list_all2 (\<lambda>a e. \<bar>a - 3 * e\<bar> \<le> 6 / 2^53 * \<bar>3 * e\<bar>) as es
     \<and> list_all2 (\<lambda>b e. \<bar>b - 3 * e\<bar> \<le> 8 / 2^53 * \<bar>3 * e\<bar>) bs es
     \<and> list_all2 (\<lambda>(a, b) e. \<bar>a - b\<bar> \<le> 14 / 2^53 * \<bar>3 * e\<bar>) (zip as bs) es)"
proof -
  have h: "\<exists>a \<in> set (fst (snd (raw_signal (profile_rng (1/50) [1, 7/8]) (1/50) 0))). a \<noteq> 0"
    by (simp add: raw_signal_profile arange_2 upt_rec)
  show ?thesis
    using h homogeneous_up_to_rounding[OF h, of "\<lparr>np_random = 0, st_errors = []\<rparr>" 1 3]
    by blast
qed

text \<open>
  The claim as the specification states it (sample by sample equality) fails in float64.
  With a raw signal of the two samples 1 and 0.875, the record at intensity 3 has the
  second sample \<open>0.875 * (0.6 * 3) = 1.5749999999999997\<close>, while 3 times the record at
  intensity 1 has \<open>3 * (0.875 * 0.6) = 1.5750000000000002\<close>: the two differ in the
  last bits.
\<close>

theorem rounded_products_counterexample:
  "fst (generar_sismo64 (profile_rng (1/50) [1, 7/8]) \<lparr>np_random = 0, st_errors = []\<rparr> (1/50) 3 0) =
     Inr ([0, 1/100], [Fin (2026619832316723 / 1125899906842624),
                       Fin (3546584706554265 / 2251799813685248)])
   \<and> map_sum id (\<lambda>(t, acc). (t, scale64 3 acc))
        (fst (generar_sismo64 (profile_rng (1/50) [1, 7/8]) \<lparr>np_random = 0, st_errors = []\<rparr> (1/50) 1 0)) =
     Inr ([0, 1/100], [Fin (2026619832316723 / 1125899906842624),
                       Fin (1773292353277133 / 1125899906842624)])
   \<and> fst (generar_sismo64 (profile_rng (1/50) [1, 7/8]) \<lparr>np_random = 0, st_errors = []\<rparr> (1/50) 3 0) \<noteq>
     map_sum id (\<lambda>(t, acc). (t, scale64 3 acc))
        (fst (generar_sismo64 (profile_rng (1/50) [1, 7/8]) \<lparr>np_random = 0, st_errors = []\<rparr> (1/50) 1 0))"
  by (simp add: generar_sismo64_def raw_signal_profile arange_2 normalizar64_def py_max_def
      scale64_def upt_rec rnd64_06 rnd64_one rnd64_78 rnd64_p1 rnd64_p2 rnd64_p3 rnd64_p4
      rnd64_p5 rnd64_p6 rnd64_three)

section \<open>Properties of the solver\<close>




text \<open>
  Claim C2, as the code has it. \<open>resolver_sdof\<close> fails exactly when an exception
  leaves the \<open>try\<close> block: raised by the integrator (or by the right-hand side inside
  it), or by the post-processing of fewer than two states. Then it returns \<open>None\<close>
  and reports the text of the exception. Whenever the integrator returns two states or
  more, whatever its success flag says and whether or not the states are finite, the call
  returns a response built from exactly those states and reports nothing.
\<close>

theorem failure_only_by_exception:
  "(case ivp (modelo_sdof m c k (arange 0 T 0.01) (map (\<lambda>ag. np_mul (Fin (- m)) ag) acc_ground))
           (0, T) (Fin 0, Fin 0) (arange 0 T 0.01) 0.01 of
      Inl e \<Rightarrow>
        resolver_sdof ivp w m c k T acc_ground =
          (None, w\<lparr>st_errors := st_errors w @ [error_text e]\<rparr>)
    | Inr sol \<Rightarrow>
        if 2 \<le> length (sol_y sol)
        then (\<exists>r. resolver_sdof ivp w m c k T acc_ground = (Some r, w)
                \<and> resp_x r = map fst (sol_y sol) \<and> resp_v r = map snd (sol_y sol)
                \<and> length (resp_a r) = length (sol_y sol))
        else (\<exists>e. resolver_sdof ivp w m c k T acc_ground =
                    (None, w\<lparr>st_errors := st_errors w @ [error_text e]\<rparr>)))"
proof (cases "ivp (modelo_sdof m c k (arange 0 T 0.01) (map (\<lambda>ag. np_mul (Fin (- m)) ag) acc_ground))
           (0, T) (Fin 0, Fin 0) (arange 0 T 0.01) 0.01")
  case (Inl e)
  then have "intentar_sdof ivp m c k T acc_ground = Inl e" by (rule intentar_raised)
  then show ?thesis unfolding Inl by (simp add: resolver_sdof_def)
next
  case (Inr sol)
  show ?thesis
  proof (cases "2 \<le> length (sol_y sol)")
    case True
    from intentar_returned[of ivp m c k T acc_ground sol, OF Inr True]
    obtain r where "intentar_sdof ivp m c k T acc_ground = Inr r"
      and "resp_x r = map fst (sol_y sol)" and "resp_v r = map snd (sol_y sol)"
      and "length (resp_a r) = length (sol_y sol)"
      by force
    then have "\<exists>r. resolver_sdof ivp w m c k T acc_ground = (Some r, w)
                \<and> resp_x r = map fst (sol_y sol) \<and> resp_v r = map snd (sol_y sol)
                \<and> length (resp_a r) = length (sol_y sol)"
      by (simp add: resolver_sdof_def)
    then show ?thesis unfolding Inr using True by (simp only: sum.case if_True)
  next
    case False
    then have "length (sol_y sol) < 2" by simp
    from intentar_single[of ivp m c k T acc_ground sol, OF Inr this]
    obtain e where "intentar_sdof ivp m c k T acc_ground = Inl e"
      by (cases "intentar_sdof ivp m c k T acc_ground") simp_all
    then have "resolver_sdof ivp w m c k T acc_ground =
        (None, w\<lparr>st_errors := st_errors w @ [error_text e]\<rparr>)"
      by (simp add: resolver_sdof_def)
    then have "\<exists>e. resolver_sdof ivp w m c k T acc_ground =
                    (None, w\<lparr>st_errors := st_errors w @ [error_text e]\<rparr>)"
      by blast
    then show ?thesis unfolding Inr using False by (simp only: sum.case if_False)
  qed
qed

theorem failure_only_by_exception_witness:
  "(\<exists>r. resolver_sdof stalled_ivp \<lparr>np_random = 0::nat, st_errors = []\<rparr> 2 (1/2) 20 (3/100)
            [Fin 2, Fin 2, Fin 2] = (Some r, \<lparr>np_random = 0::nat, st_errors = []\<rparr>)
        \<and> resp_x r = [Fin 0, Fin 0] \<and> resp_v r = [Fin 0, Fin 0] \<and> length (resp_a r) = 2)
   \<and> resolver_sdof euler_ivp \<lparr>np_random = 0::nat, st_errors = []\<rparr> 2 (1/2) 20 (3/100) [Fin 2] =
       (None, \<lparr>np_random = 0::nat, st_errors = [error_text (ValueError ''fp and xp are not of the same length.'')]\<rparr>)"
proof -
  have stalled: "stalled_ivp (modelo_sdof 2 (1/2) 20 (arange 0 (3/100) 0.01)
               (map (\<lambda>ag. np_mul (Fin (- 2)) ag) [Fin 2, Fin 2, Fin 2]))
             (0, 3/100) (Fin 0, Fin 0) (arange 0 (3/100) 0.01) 0.01 =
           Inr \<lparr>sol_y = [(Fin 0, Fin 0), (Fin 0, Fin 0)], success = False,
                message = ''Required step size is less than spacing between numbers.''\<rparr>"
    by (simp add: arange_3 stalled_ivp_def modelo_sdof_def interp_def np_sub_def)
  have raised: "euler_ivp (modelo_sdof 2 (1/2) 20 (arange 0 (3/100) 0.01)
               (map (\<lambda>ag. np_mul (Fin (- 2)) ag) [Fin 2]))
             (0, 3/100) (Fin 0, Fin 0) (arange 0 (3/100) 0.01) 0.01 =
           Inl (ValueError ''fp and xp are not of the same length.'')"
    by (simp add: arange_3 euler_ivp_def modelo_sdof_def interp_def)
  show ?thesis
    using failure_only_by_exception[where ivp = stalled_ivp and m = 2 and c = "1/2" and k = 20
        and T = "3/100" and acc_ground = "[Fin 2, Fin 2, Fin 2]"
        and w = "\<lparr>np_random = 0::nat, st_errors = []\<rparr>"]
      failure_only_by_exception[where ivp = euler_ivp and m = 2 and c = "1/2" and k = 20
        and T = "3/100" and acc_ground = "[Fin 2]"
        and w = "\<lparr>np_random = 0::nat, st_errors = []\<rparr>"]
    unfolding stalled raised by (auto simp: numeral_2_eq_2)
qed

text \<open>
  The claim as the specification states it (a failed integration yields no response)
  fails: an integrator that gives up after two of the four evaluation times and says so
  in its result makes \<open>resolver_sdof\<close> return a response of two samples beside a
  time vector of four.
\<close>

theorem stalled_counterexample:
  "map_sum id success
     (stalled_ivp (modelo_sdof 1 (1/2) 20 (arange 0 (1/25) 0.01)
                     (map (\<lambda>ag. np_mul (Fin (- 1)) ag) [Fin 1, Fin 1, Fin 1, Fin 1]))
        (0, 1/25) (Fin 0, Fin 0) (arange 0 (1/25) 0.01) 0.01) = Inr False
   \<and> resolver_sdof stalled_ivp \<lparr>np_random = 0::nat, st_errors = []\<rparr> 1 (1/2) 20 (1/25)
         [Fin 1, Fin 1, Fin 1, Fin 1] =
     (Some \<lparr>resp_t = [0, 1/100, 1/50, 3/100],
            resp_x = [Fin 0, Fin 0],
            resp_v = [Fin 0, Fin 0],
            resp_a = [Fin 0, Fin 0],
            E_cinetica = [Fin 0, Fin 0],
            E_potencial = [Fin 0, Fin 0],
            E_total = [Fin 0, Fin 0]\<rparr>, \<lparr>np_random = 0, st_errors = []\<rparr>)"
  by (simp add: resolver_sdof_def intentar_sdof_def arange_4 stalled_ivp_def modelo_sdof_def
      interp_def gradient_def np_sub_def upt_rec Let_def)

text \<open>
  Claim C7, as the code has it. Take an integrator that, on the call \<open>resolver_sdof\<close>
  makes, keeps at rest a system whose right-hand side vanishes there, a mass different
  from zero and a duration whose time grid has at least two samples. Then an all-zero
  record aligned with the grid yields displacement, velocity, acceleration and the three
  energies all zero at every sample, and nothing is reported.
\<close>

theorem rest_stays_at_rest:
  assumes "keeps_rest ivp T" and "m \<noteq> 0" and "2 \<le> length (arange 0 T 0.01)"
  shows "resolver_sdof ivp w m c k T (map (\<lambda>_. Fin 0) (arange 0 T 0.01)) =
    (Some \<lparr>resp_t = arange 0 T 0.01,
           resp_x = map (\<lambda>_. Fin 0) (arange 0 T 0.01),
           resp_v = map (\<lambda>_. Fin 0) (arange 0 T 0.01),
           resp_a = map (\<lambda>_. Fin 0) (arange 0 T 0.01),
           E_cinetica = map (\<lambda>_. Fin 0) (arange 0 T 0.01),
           E_potencial = map (\<lambda>_. Fin 0) (arange 0 T 0.01),
           E_total = map (\<lambda>_. Fin 0) (arange 0 T 0.01)\<rparr>, w)"
proof -
  let ?t = "arange 0 T 0.01"
  let ?Z = "map (\<lambda>_. Fin 0) ?t"
  let ?F = "map (\<lambda>ag. np_mul (Fin (- m)) ag) ?Z"
  have two: "2 \<le> length ?t" by (rule assms(3))
  then have ne: "?t \<noteq> []" by auto
  have dist: "distinct ?t" by (rule distinct_arange) simp
  have F: "?F = ?Z" by (rule force_zero)
  have "\<forall>ti. modelo_sdof m c k ?t ?F ti (Fin 0, Fin 0) = Inr (Fin 0, Fin 0)"
    unfolding F using modelo_rest[OF ne dist assms(2)] by blast
  with assms(1) obtain sol where
    sol: "ivp (modelo_sdof m c k ?t ?F) (0, T) (Fin 0, Fin 0) ?t 0.01 = Inr sol"
    and y: "sol_y sol = map (\<lambda>_. (Fin 0, Fin 0)) ?t"
    unfolding keeps_rest_def by blast
  have len: "2 \<le> length (sol_y sol)" using two y by simp
  have x: "map fst (sol_y sol) = ?Z" and v: "map snd (sol_y sol) = ?Z"
    by (simp_all add: y)
  have grad: "gradient ?Z 0.01 = Inr ?Z"
    using two by (intro gradient_zero) simp_all
  have sum: "map2 np_add ?Z ?Z = ?Z"
    by (rule nth_equalityI) simp_all
  have Ec: "map (\<lambda>vi. np_mul (Fin (0.5 * m)) (np_mul vi vi)) ?Z = ?Z"
    and Ep: "map (\<lambda>xi. np_mul (Fin (0.5 * k)) (np_mul xi xi)) ?Z = ?Z"
    by simp_all
  from intentar_returned[of ivp m c k T ?Z sol, OF sol len]
  obtain a where ga: "gradient (map snd (sol_y sol)) 0.01 = Inr a"
    and r: "intentar_sdof ivp m c k T ?Z =
      Inr \<lparr>resp_t = ?t, resp_x = map fst (sol_y sol), resp_v = map snd (sol_y sol), resp_a = a,
           E_cinetica = map (\<lambda>vi. np_mul (Fin (0.5 * m)) (np_mul vi vi)) (map snd (sol_y sol)),
           E_potencial = map (\<lambda>xi. np_mul (Fin (0.5 * k)) (np_mul xi xi)) (map fst (sol_y sol)),
           E_total = map2 np_add
              (map (\<lambda>vi. np_mul (Fin (0.5 * m)) (np_mul vi vi)) (map snd (sol_y sol)))
              (map (\<lambda>xi. np_mul (Fin (0.5 * k)) (np_mul xi xi)) (map fst (sol_y sol)))\<rparr>"
    by blast
  have a: "a = ?Z" using ga grad unfolding v by simp
  have "intentar_sdof ivp m c k T ?Z =
      Inr \<lparr>resp_t = ?t, resp_x = ?Z, resp_v = ?Z, resp_a = ?Z,
           E_cinetica = ?Z, E_potencial = ?Z, E_total = ?Z\<rparr>"
    using r unfolding x v Ec Ep sum a .
  then show ?thesis by (simp add: resolver_sdof_def)
qed

theorem rest_stays_at_rest_witness:
  "keeps_rest euler_ivp (3/100) \<and> (1::real) \<noteq> 0 \<and> 2 \<le> length (arange 0 (3/100) 0.01)
   \<and> resolver_sdof euler_ivp \<lparr>np_random = 0::nat, st_errors = []\<rparr> 1 (1/2) 20 (3/100)
         (map (\<lambda>_. Fin 0) (arange 0 (3/100) 0.01)) =
       (Some \<lparr>resp_t = [0, 1/100, 1/50],
              resp_x = [Fin 0, Fin 0, Fin 0],
              resp_v = [Fin 0, Fin 0, Fin 0],
              resp_a = [Fin 0, Fin 0, Fin 0],
              E_cinetica = [Fin 0, Fin 0, Fin 0],
              E_potencial = [Fin 0, Fin 0, Fin 0],
              E_total = [Fin 0, Fin 0, Fin 0]\<rparr>, \<lparr>np_random = 0, st_errors = []\<rparr>)"
proof -
  have h2: "(1::real) \<noteq> 0" by simp
  have h3: "2 \<le> length (arange 0 (3/100) 0.01)" by (simp add: arange_3)
  show ?thesis
    using euler_keeps_rest h2 h3
      rest_stays_at_rest[OF euler_keeps_rest h2 h3, of "\<lparr>np_random = 0::nat, st_errors = []\<rparr>" "1/2" 20]
    by (simp add: arange_3)
qed

text \<open>
  The claim as the specification states it (for every valid duration) fails for a
  duration of one step: the grid has a single sample, \<open>np.gradient\<close> raises on the
  single velocity, and the call returns \<open>None\<close>.
\<close>

theorem single_sample_counterexample:
  "fst (resolver_sdof euler_ivp \<lparr>np_random = 0::nat, st_errors = []\<rparr> 1 (1/2) 20 (1/100) [Fin 0]) = None"
  by (simp add: resolver_sdof_def intentar_sdof_def arange_1 euler_ivp_def modelo_sdof_def
      interp_def gradient_def np_sub_def finite_state_def Let_def)




text \<open>
  Claim C8. The result of \<open>resolver_sdof\<close> is a function of its arguments alone: it
  does not depend on the state of the process in which the call is made, the call leaves
  the random generator as it found it, and a second call made in the state the first one
  left behind returns the same result.
\<close>

theorem resolver_sdof_pure:
  "fst (resolver_sdof ivp w m c k T acc_ground) = fst (resolver_sdof ivp w' m c k T acc_ground)
   \<and> np_random (snd (resolver_sdof ivp w m c k T acc_ground)) = np_random w
   \<and> fst (resolver_sdof ivp (snd (resolver_sdof ivp w m c k T acc_ground)) m c k T acc_ground) =
       fst (resolver_sdof ivp w m c k T acc_ground)"
  by (simp add: resolver_sdof_def split: sum.splits)

text \<open>
  Claim C9. With an integrator that lets the exceptions of the right-hand side pass, a
  record whose length differs from that of the time grid makes \<open>resolver_sdof\<close> return
  \<open>None\<close>: every interpolation of the force raises.
\<close>

theorem misaligned_record_fails:
  assumes "passes_exceptions ivp"
    and "length acc_ground \<noteq> length (arange 0 T 0.01)"
  shows "fst (resolver_sdof ivp w m c k T acc_ground) = None"
proof -
  let ?t = "arange 0 T 0.01"
  let ?F = "map (\<lambda>ag. np_mul (Fin (- m)) ag) acc_ground"
  have "length ?F \<noteq> length ?t" using assms(2) by simp
  then have "\<forall>ti y. isl (modelo_sdof m c k ?t ?F ti y)"
    by (blast intro: modelo_mismatch)
  with assms(1) have "isl (ivp (modelo_sdof m c k ?t ?F) (0, T) (Fin 0, Fin 0) ?t 0.01)"
    unfolding passes_exceptions_def by blast
  then obtain e where
    "ivp (modelo_sdof m c k ?t ?F) (0, T) (Fin 0, Fin 0) ?t 0.01 = Inl e"
    by (cases "ivp (modelo_sdof m c k ?t ?F) (0, T) (Fin 0, Fin 0) ?t 0.01") simp_all
  then have "intentar_sdof ivp m c k T acc_ground = Inl e" by (rule intentar_raised)
  then show ?thesis by (simp add: resolver_sdof_def)
qed

theorem misaligned_record_fails_witness:
  "passes_exceptions euler_ivp
   \<and> length [Fin 1] \<noteq> length (arange 0 (1/50) 0.01)
   \<and> fst (resolver_sdof euler_ivp \<lparr>np_random = 0::nat, st_errors = []\<rparr> 1 (1/2) 20 (1/50) [Fin 1]) = None"
proof -
  have h: "length [Fin 1] \<noteq> length (arange 0 (1/50) 0.01)" by (simp add: arange_2)
  show ?thesis
    using euler_passes_exceptions h misaligned_record_fails[OF euler_passes_exceptions h]
    by blast
qed

end
